theory Spec2Isabelle
  imports Main
begin

section \<open>Values, documents and collections\<close>

text \<open>
  The server stores JSON-like documents in MongoDB collections and receives JSON request
  bodies. A value is a scalar, a date, an object id or a list of strings; a document is an
  ordered list of named fields. Request bodies are flat JSON objects (no nested object
  values), so query operators cannot occur as field values. An object id is the sequence
  of its hexadecimal digits, each as a number, so that it does not depend on the letter
  case it was written in.
\<close>

datatype jsval =
    JUndefined
  | JNull
  | JBool bool
  | JNum int
  | JStr string
  | JDate nat
  | JObjectId "nat list"
  | JList "string list"

type_synonym doc = "(string \<times> jsval) list"

text \<open>
  The object id written as the hexadecimal string \<open>s\<close>: the digits \<open>a\<close> to \<open>f\<close> are
  read in either case. (A character that is no hexadecimal digit is kept apart from all
  digits; \<^verbatim>\<open>new ObjectId\<close> below never lets one through.)
\<close>

definition hex_table :: "(char \<times> nat) list" where
  "hex_table =
     [(CHR ''0'', 0), (CHR ''1'', 1), (CHR ''2'', 2), (CHR ''3'', 3), (CHR ''4'', 4),
      (CHR ''5'', 5), (CHR ''6'', 6), (CHR ''7'', 7), (CHR ''8'', 8), (CHR ''9'', 9),
      (CHR ''a'', 10), (CHR ''b'', 11), (CHR ''c'', 12), (CHR ''d'', 13), (CHR ''e'', 14),
      (CHR ''f'', 15),
      (CHR ''A'', 10), (CHR ''B'', 11), (CHR ''C'', 12), (CHR ''D'', 13), (CHR ''E'', 14),
      (CHR ''F'', 15)]"

definition hex_digit :: "char \<Rightarrow> nat" where
  "hex_digit c = (case map_of hex_table c of Some n \<Rightarrow> n | None \<Rightarrow> 16 + of_char c)"

definition JOid :: "string \<Rightarrow> jsval" where
  "JOid s = JObjectId (map hex_digit s)"

text \<open>JavaScript truthiness, as used by \<^verbatim>\<open>if (x)\<close> and \<^verbatim>\<open>!x\<close>.\<close>

fun truthy :: "jsval \<Rightarrow> bool" where
  "truthy JUndefined = False"
| "truthy JNull = False"
| "truthy (JBool b) = b"
| "truthy (JNum n) = (n \<noteq> 0)"
| "truthy (JStr s) = (s \<noteq> [])"
| "truthy (JDate t) = True"
| "truthy (JObjectId ds) = True"
| "truthy (JList xs) = True"

text \<open>Dates, object ids and arrays are objects: \<^verbatim>\<open>===\<close> compares them by reference.\<close>

fun primitive :: "jsval \<Rightarrow> bool" where
  "primitive (JDate t) = False"
| "primitive (JObjectId ds) = False"
| "primitive (JList xs) = False"
| "primitive v = True"

definition strict_eq :: "jsval \<Rightarrow> jsval \<Rightarrow> bool" where
  "strict_eq a b = (a = b \<and> primitive a)"

text \<open>Property read \<^verbatim>\<open>d.k\<close>: a missing property reads as \<^verbatim>\<open>undefined\<close>.\<close>

definition get_field :: "doc \<Rightarrow> string \<Rightarrow> jsval" where
  "get_field d k = (case map_of d k of None \<Rightarrow> JUndefined | Some v \<Rightarrow> v)"

text \<open>Property write \<^verbatim>\<open>d.k = v\<close>: replaces the property in place or appends it.\<close>

fun set_field :: "string \<Rightarrow> jsval \<Rightarrow> doc \<Rightarrow> doc" where
  "set_field k v [] = [(k, v)]"
| "set_field k v ((k', v') # d) =
     (if k' = k then (k, v) # d else (k', v') # set_field k v d)"

text \<open>The driver serialises \<^verbatim>\<open>undefined\<close> as \<^verbatim>\<open>null\<close> (ignoreUndefined is off).\<close>

definition to_bson :: "jsval \<Rightarrow> jsval" where
  "to_bson v = (if v = JUndefined then JNull else v)"

text \<open>The \<^verbatim>\<open>$set\<close> operator: every listed field is written, in order.\<close>

definition apply_set :: "doc \<Rightarrow> doc \<Rightarrow> doc" where
  "apply_set sets d = fold (\<lambda>(k, v). set_field k (to_bson v)) sets d"

text \<open>
  An equality condition \<^verbatim>\<open>{k: q}\<close> of a filter: \<^verbatim>\<open>null\<close> (and \<^verbatim>\<open>undefined\<close>, sent as
  \<^verbatim>\<open>null\<close>) matches a missing or null field; a stored array matches when it equals the
  queried value or contains it.
\<close>

definition field_matches :: "jsval \<Rightarrow> jsval \<Rightarrow> bool" where
  "field_matches stored q =
     (if q = JNull \<or> q = JUndefined then stored = JNull \<or> stored = JUndefined
      else stored = q \<or> (case stored of JList xs \<Rightarrow> list_ex (\<lambda>x. JStr x = q) xs | _ \<Rightarrow> False))"

definition matches :: "doc \<Rightarrow> doc \<Rightarrow> bool" where
  "matches flt d = list_all (\<lambda>(k, q). field_matches (get_field d k) q) flt"

definition findOne :: "doc \<Rightarrow> doc list \<Rightarrow> doc option" where
  "findOne flt coll = find (matches flt) coll"

text \<open>
  What the driver and the server throw: a malformed object id, a \<^verbatim>\<open>$set\<close> that would
  change \<^verbatim>\<open>_id\<close>, an insert that repeats an \<^verbatim>\<open>_id\<close>.
\<close>

datatype error = BSONError | ImmutableField | DuplicateKey

record update_result =
  matchedCount :: nat
  modifiedCount :: nat
  upsertedCount :: nat

fun update_first :: "(doc \<Rightarrow> bool) \<Rightarrow> (doc \<Rightarrow> doc) \<Rightarrow> doc list \<Rightarrow> doc list" where
  "update_first P f [] = []"
| "update_first P f (d # ds) = (if P d then f d # ds else d # update_first P f ds)"

text \<open>
  \<^verbatim>\<open>insertOne\<close>: a document without \<^verbatim>\<open>_id\<close> gets the freshly generated one; the unique
  index on \<^verbatim>\<open>_id\<close> rejects a duplicate.
\<close>

definition insertOne :: "string \<Rightarrow> doc \<Rightarrow> doc list \<Rightarrow> error + (jsval \<times> doc list)" where
  "insertOne fresh d coll =
     (let d1 = map (\<lambda>(k, v). (k, to_bson v)) d;
          d2 = (if get_field d1 ''_id'' = JUndefined \<or> get_field d1 ''_id'' = JNull
                then set_field ''_id'' (JOid fresh) d1 else d1)
      in if list_ex (\<lambda>e. get_field e ''_id'' = get_field d2 ''_id'') coll
         then Inl DuplicateKey
         else Inr (get_field d2 ''_id'', coll @ [d2]))"

text \<open>
  \<^verbatim>\<open>updateOne(filter, {$set: sets, $setOnInsert: onInsert}, {upsert})\<close>: the first document
  matching the filter is updated; \<^verbatim>\<open>modifiedCount\<close> counts it only when it changed. The
  \<^verbatim>\<open>_id\<close> of a stored document cannot be changed. With \<^verbatim>\<open>upsert\<close> and no match, a document
  made of the filter's fields, the \<^verbatim>\<open>$set\<close> fields and the \<^verbatim>\<open>$setOnInsert\<close> fields is
  inserted. An empty \<^verbatim>\<open>$set\<close> is accepted and changes nothing. The storage itself does not
  fail: an operation is an error only when the server rejects what the handler sends.
\<close>

definition updateOneGen ::
  "bool \<Rightarrow> string \<Rightarrow> doc \<Rightarrow> doc \<Rightarrow> doc \<Rightarrow> doc list \<Rightarrow> error + (update_result \<times> doc list)" where
  "updateOneGen upsert fresh flt sets onInsert coll =
     (case findOne flt coll of
        Some d \<Rightarrow>
          (let d' = apply_set sets d in
           if get_field d' ''_id'' \<noteq> get_field d ''_id'' then Inl ImmutableField
           else Inr (\<lparr>matchedCount = 1, modifiedCount = (if d' = d then 0 else 1),
                       upsertedCount = 0\<rparr>,
                     update_first (matches flt) (apply_set sets) coll))
      | None \<Rightarrow>
          (if upsert then
             (case insertOne fresh (apply_set onInsert (apply_set sets flt)) coll of
                Inl e \<Rightarrow> Inl e
              | Inr (i, coll') \<Rightarrow>
                  Inr (\<lparr>matchedCount = 0, modifiedCount = 0, upsertedCount = 1\<rparr>, coll'))
           else Inr (\<lparr>matchedCount = 0, modifiedCount = 0, upsertedCount = 0\<rparr>, coll)))"

definition updateOne :: "doc \<Rightarrow> doc \<Rightarrow> doc list \<Rightarrow> error + (update_result \<times> doc list)" where
  "updateOne flt sets coll = updateOneGen False [] flt sets [] coll"

text \<open>
  \<^verbatim>\<open>new ObjectId(s)\<close> throws unless \<open>s\<close> is a string of 24 hexadecimal digits, in
  either letter case; it yields the object id those digits denote.
\<close>

definition is_hex :: "char \<Rightarrow> bool" where
  "is_hex c = (c \<in> set ''0123456789abcdefABCDEF'')"

definition ObjectId_isValid :: "string \<Rightarrow> bool" where
  "ObjectId_isValid s = (length s = 24 \<and> list_all is_hex s)"

definition ObjectId :: "string \<Rightarrow> error + jsval" where
  "ObjectId s = (if ObjectId_isValid s then Inr (JOid s) else Inl BSONError)"

section \<open>Server state, requests and responses\<close>

record database =
  users :: "doc list"
  clubs :: "doc list"
  memberships :: "doc list"
  club_managers :: "doc list"
  club_roles :: "doc list"

text \<open>
  What a request handler takes from outside the server: the identity authority
  (\<^verbatim>\<open>admin.auth().verifyIdToken\<close>, \<open>None\<close> when it rejects the token), the clock
  (\<^verbatim>\<open>new Date()\<close>), the object id the driver generates for an inserted document (as its
  hexadecimal string), and the binding of the name \<^verbatim>\<open>MEMBER_PERMISSIONS\<close>. The source file
  uses that name once and declares it nowhere, so the server runs with \<open>None\<close>: no
  binding is in scope and evaluating the name throws a \<^verbatim>\<open>ReferenceError\<close>.
\<close>

record env =
  verifyIdToken :: "string \<Rightarrow> doc option"
  now :: nat
  fresh :: string
  MEMBER_PERMISSIONS :: "jsval option"

text \<open>
  A request: the Authorization header (\<open>None\<close> when absent), the route parameters
  \<^verbatim>\<open>:id\<close> and \<^verbatim>\<open>:email\<close>, the JSON body, and \<^verbatim>\<open>req.user\<close>, which only
  \<open>verifyFBToken\<close> sets (to the decoded token).
\<close>

record request =
  authorization :: "string option"
  param_id :: string
  param_email :: string
  body :: doc
  user :: "doc option"

datatype payload =
    Message string
  | UpdateResult update_result
  | InsertResult jsval
  | MessageResult string update_result

record response =
  status :: nat
  payload :: payload

definition send :: "nat \<Rightarrow> payload \<Rightarrow> response" where
  "send c p = \<lparr>status = c, payload = p\<rparr>"

text \<open>
  A middleware calls \<^verbatim>\<open>next()\<close>, or answers itself, or throws outside any handler (it then
  sends nothing).
\<close>

datatype outcome = Next request | Respond response | Unhandled

type_synonym middleware = "env \<Rightarrow> database \<Rightarrow> request \<Rightarrow> outcome"
type_synonym handler = "env \<Rightarrow> database \<Rightarrow> request \<Rightarrow> response \<times> database"

fun run_route ::
  "middleware list \<Rightarrow> handler \<Rightarrow> env \<Rightarrow> database \<Rightarrow> request \<Rightarrow> response option \<times> database" where
  "run_route [] h e db req = (case h e db req of (r, db') \<Rightarrow> (Some r, db'))"
| "run_route (m # ms) h e db req =
     (case m e db req of
        Next req' \<Rightarrow> run_route ms h e db req'
      | Respond r \<Rightarrow> (Some r, db)
      | Unhandled \<Rightarrow> (None, db))"

section \<open>Middlewares\<close>

text \<open>\<^verbatim>\<open>s.split(c)\<close> for a one-character separator.\<close>

fun split_on :: "char \<Rightarrow> string \<Rightarrow> string list" where
  "split_on c [] = [[]]"
| "split_on c (x # xs) =
     (if x = c then [] # split_on c xs
      else (case split_on c xs of w # ws \<Rightarrow> (x # w) # ws | [] \<Rightarrow> [[x]]))"

text \<open>Array read \<^verbatim>\<open>xs[i]\<close>: \<^verbatim>\<open>undefined\<close> out of range.\<close>

definition index :: "'a list \<Rightarrow> nat \<Rightarrow> 'a option" where
  "index xs i = (if i < length xs then Some (xs ! i) else None)"

definition verifyFBToken :: middleware where
  "verifyFBToken e db req =
     (case authorization req of
        None \<Rightarrow> Respond (send 401 (Message ''Unauthorized''))
      | Some authHeader \<Rightarrow>
          if authHeader = [] then Respond (send 401 (Message ''Unauthorized''))
          else
            (case index (split_on CHR '' '' authHeader) 1 of
               None \<Rightarrow> Respond (send 401 (Message ''Unauthorized: Invalid token format''))
             | Some token \<Rightarrow>
                 if token = [] then
                   Respond (send 401 (Message ''Unauthorized: Invalid token format''))
                 else
                   (case verifyIdToken e token of
                      None \<Rightarrow> Respond (send 403 (Message ''Forbidden''))
                    | Some decodedToken \<Rightarrow> Next (req\<lparr>user := Some decodedToken\<rparr>))))"

definition verifySuperAdmin :: middleware where
  "verifySuperAdmin e db req =
     (case user req of
        None \<Rightarrow> Unhandled
      | Some u \<Rightarrow>
          (let email = get_field u ''email'';
               query = [(''email'', email)]
           in case findOne query (users db) of
                Some usr \<Rightarrow>
                  if strict_eq (get_field usr ''role'') (JStr ''super_admin'') then Next req
                  else Respond (send 403 (Message ''forbidden access''))
              | None \<Rightarrow> Respond (send 403 (Message ''forbidden access''))))"

definition verifyClubPermission :: middleware where
  "verifyClubPermission e db req =
     (case user req of
        None \<Rightarrow> Unhandled
      | Some u \<Rightarrow>
          (let email = get_field u ''email'';
               clubId = param_id req
           in if clubId = [] then Respond (send 400 (Message ''Club ID is required.''))
              else
                (case ObjectId clubId of
                   Inl err \<Rightarrow>
                     Respond (send 500 (Message ''Internal Server Error during permission check.''))
                 | Inr oid \<Rightarrow>
                     (case findOne [(''_id'', oid)] (clubs db) of
                        None \<Rightarrow> Respond (send 404 (Message ''Club not found.''))
                      | Some club \<Rightarrow>
                          if strict_eq (get_field club ''userEmail'') email then Next req
                          else Respond (send 403
                            (Message ''Forbidden: You are not the manager of this club.''))))))"

section \<open>Request handlers\<close>

text \<open>POST /users (registration).\<close>

definition POST_users :: handler where
  "POST_users e db req =
     (let newUser = set_field ''role'' (JStr ''member'') (body req) in
      case findOne [(''email'', get_field newUser ''email'')] (users db) of
        Some alreadyexists \<Rightarrow> (send 400 (Message ''User already exists.''), db)
      | None \<Rightarrow>
          (case insertOne (fresh e) newUser (users db) of
             Inl err \<Rightarrow> (send 500 (Message ''Failed to create user.''), db)
           | Inr (i, us) \<Rightarrow> (send 201 (InsertResult i), db\<lparr>users := us\<rparr>)))"

text \<open>PATCH /clubs/:id (update club details).\<close>

definition set_if_truthy :: "doc \<Rightarrow> string \<Rightarrow> doc" where
  "set_if_truthy b k = (if truthy (get_field b k) then [(k, get_field b k)] else [])"

text \<open>The \<^verbatim>\<open>$set\<close> document the handler builds from the body, field by field.\<close>

definition club_updateDoc :: "doc \<Rightarrow> doc" where
  "club_updateDoc updatedClub =
     set_if_truthy updatedClub ''status'' @
     set_if_truthy updatedClub ''clubName'' @
     set_if_truthy updatedClub ''description'' @
     set_if_truthy updatedClub ''location'' @
     set_if_truthy updatedClub ''category'' @
     set_if_truthy updatedClub ''bannerImage'' @
     (if get_field updatedClub ''membershipFee'' \<noteq> JUndefined
      then [(''membershipFee'', get_field updatedClub ''membershipFee'')] else [])"

definition PATCH_clubs_id :: handler where
  "PATCH_clubs_id e db req =
     (let updatedClub = body req in
      case ObjectId (param_id req) of
        Inl err \<Rightarrow> (send 500 (Message ''Failed to update club.''), db)
      | Inr oid \<Rightarrow>
          (case updateOne [(''_id'', oid)] (club_updateDoc updatedClub) (clubs db) of
             Inl err \<Rightarrow> (send 500 (Message ''Failed to update club.''), db)
           | Inr (result, cs) \<Rightarrow> (send 200 (UpdateResult result), db\<lparr>clubs := cs\<rparr>)))"

text \<open>PATCH /clubs/:id/members/:email/status (approve or reject a member).\<close>

definition PATCH_clubs_id_members_email_status :: handler where
  "PATCH_clubs_id_members_email_status e db req =
     (let clubId = JStr (param_id req);
          userEmail = JStr (param_email req);
          st = get_field (body req) ''status''
      in if \<not> (st = JStr ''active'' \<or> st = JStr ''rejected'') then
           (send 400 (Message ''Invalid status''), db)
         else
           (case updateOne [(''clubId'', clubId), (''userEmail'', userEmail)]
                   [(''status'', st)] (memberships db) of
              Inl err \<Rightarrow> (send 500 (Message ''Failed to update member status''), db)
            | Inr (updateResult, ms) \<Rightarrow>
                (let db1 = db\<lparr>memberships := ms\<rparr> in
                 if modifiedCount updateResult > 0 \<and> st = JStr ''active'' then
                   (case MEMBER_PERMISSIONS e of
                      None \<Rightarrow> (send 500 (Message ''Failed to update member status''), db1)
                    | Some perms \<Rightarrow>
                        (case updateOneGen True (fresh e)
                                [(''clubId'', clubId), (''userEmail'', userEmail)]
                                [(''role'', JStr ''member''), (''permissions'', perms)]
                                [(''assignedAt'', JDate (now e))] (club_roles db1) of
                           Inl err \<Rightarrow>
                             (send 500 (Message ''Failed to update member status''), db1)
                         | Inr (r, rs) \<Rightarrow>
                             (send 200 (UpdateResult updateResult), db1\<lparr>club_roles := rs\<rparr>)))
                 else (send 200 (UpdateResult updateResult), db1))))"


text \<open>POST /club-managers (apply to be a club manager).\<close>

definition POST_club_managers :: handler where
  "POST_club_managers e db req =
     (let application = body req in
      if \<not> truthy (get_field application ''name'') \<or> \<not> truthy (get_field application ''email'')
      then (send 400 (Message ''Name and Email are required.''), db)
      else
        (case findOne [(''email'', get_field application ''email'')] (club_managers db) of
           Some existingApp \<Rightarrow>
             if get_field existingApp ''status'' = JStr ''rejected'' then
               (case updateOne [(''email'', get_field application ''email'')]
                       [(''name'', get_field application ''name''),
                        (''reason'', get_field application ''reason''),
                        (''photoURL'', get_field application ''photoURL''),
                        (''status'', JStr ''pending''),
                        (''appliedAt'', JDate (now e))] (club_managers db) of
                  Inl err \<Rightarrow> (send 500 (Message ''Failed to submit application.''), db)
                | Inr (result, cms) \<Rightarrow>
                    (send 200 (MessageResult ''Re-application submitted successfully.'' result),
                     db\<lparr>club_managers := cms\<rparr>))
             else if get_field existingApp ''status'' = JStr ''pending'' then
               (send 409 (Message ''Your application is currently pending approval.''), db)
             else (send 409 (Message ''You are already an approved manager.''), db)
         | None \<Rightarrow>
             (case insertOne (fresh e)
                     (set_field ''appliedAt'' (JDate (now e))
                        (set_field ''status'' (JStr ''pending'') application))
                     (club_managers db) of
                Inl err \<Rightarrow> (send 500 (Message ''Failed to submit application.''), db)
              | Inr (i, cms) \<Rightarrow> (send 201 (InsertResult i), db\<lparr>club_managers := cms\<rparr>))))"

text \<open>PATCH /club-managers/:id (update a manager application).\<close>

definition PATCH_club_managers_id :: handler where
  "PATCH_club_managers_id e db req =
     (let updatedManager = body req in
      case ObjectId (param_id req) of
        Inl err \<Rightarrow> (send 500 (Message ''Failed to update club manager.''), db)
      | Inr oid \<Rightarrow>
          (case updateOne [(''_id'', oid)] updatedManager (club_managers db) of
             Inl err \<Rightarrow> (send 500 (Message ''Failed to update club manager.''), db)
           | Inr (result, cms) \<Rightarrow>
               (let db1 = db\<lparr>club_managers := cms\<rparr> in
                if get_field updatedManager ''status'' = JStr ''approved'' then
                  (case findOne [(''_id'', oid)] (club_managers db1) of
                     None \<Rightarrow> (send 200 (UpdateResult result), db1)
                   | Some application \<Rightarrow>
                       if truthy (get_field application ''email'') then
                         (case updateOne [(''email'', get_field application ''email'')]
                                 [(''role'', JStr ''club_manager'')] (users db1) of
                            Inl err \<Rightarrow>
                              (send 500 (Message ''Failed to update club manager.''), db1)
                          | Inr (r, us) \<Rightarrow>
                              (send 200 (UpdateResult result), db1\<lparr>users := us\<rparr>))
                       else (send 200 (UpdateResult result), db1))
                else (send 200 (UpdateResult result), db1))))"

section \<open>Routes\<close>

text \<open>The routes as the server registers them: the middlewares listed, then the handler.\<close>

definition route_POST_users ::
  "env \<Rightarrow> database \<Rightarrow> request \<Rightarrow> response option \<times> database" where
  "route_POST_users = run_route [] POST_users"

definition route_PATCH_clubs_id ::
  "env \<Rightarrow> database \<Rightarrow> request \<Rightarrow> response option \<times> database" where
  "route_PATCH_clubs_id = run_route [verifyFBToken] PATCH_clubs_id"

definition route_PATCH_clubs_id_members_email_status ::
  "env \<Rightarrow> database \<Rightarrow> request \<Rightarrow> response option \<times> database" where
  "route_PATCH_clubs_id_members_email_status =
     run_route [verifyFBToken] PATCH_clubs_id_members_email_status"


definition route_POST_club_managers ::
  "env \<Rightarrow> database \<Rightarrow> request \<Rightarrow> response option \<times> database" where
  "route_POST_club_managers = run_route [] POST_club_managers"

definition route_PATCH_club_managers_id ::
  "env \<Rightarrow> database \<Rightarrow> request \<Rightarrow> response option \<times> database" where
  "route_PATCH_club_managers_id = run_route [verifyFBToken] PATCH_club_managers_id"

section \<open>A concrete deployment\<close>

text \<open>
  A small server state used to run the handlers on explicit requests: four users, one
  club owned by alice, one pending membership of bob and one pending manager application
  of bob. The identity authority knows two tokens.
\<close>

definition tokens :: "string \<Rightarrow> doc option" where
  "tokens t =
     (if t = ''alice-token'' then Some [(''email'', JStr ''alice@x.com'')]
      else if t = ''root-token'' then Some [(''email'', JStr ''root@x.com'')]
      else None)"

definition env0 :: env where
  "env0 = \<lparr>verifyIdToken = tokens, now = 1000, fresh = ''ffffffffffffffffffffffff'',
            MEMBER_PERMISSIONS = Some (JList [''view_events''])\<rparr>"

definition club1 :: string where "club1 = ''c1c1c1c1c1c1c1c1c1c1c1c1''"
definition app1 :: string where "app1 = ''a1a1a1a1a1a1a1a1a1a1a1a1''"
definition mem1 :: string where "mem1 = ''b1b1b1b1b1b1b1b1b1b1b1b1''"

definition db0 :: database where
  "db0 = \<lparr>users =
            [[(''email'', JStr ''alice@x.com''), (''role'', JStr ''member'')],
             [(''email'', JStr ''bob@x.com''), (''role'', JStr ''member'')],
             [(''email'', JStr ''eve@x.com''), (''role'', JStr ''member'')],
             [(''email'', JStr ''root@x.com''), (''role'', JStr ''super_admin'')]],
          clubs =
            [[(''_id'', JOid club1), (''clubName'', JStr ''Chess''),
              (''userEmail'', JStr ''alice@x.com''), (''status'', JStr ''approved'')]],
          memberships =
            [[(''_id'', JOid mem1), (''clubId'', JStr club1),
              (''userEmail'', JStr ''bob@x.com''), (''status'', JStr ''pending'')]],
          club_managers =
            [[(''_id'', JOid app1), (''name'', JStr ''Bob''),
              (''email'', JStr ''bob@x.com''), (''status'', JStr ''pending'')]],
          club_roles = []\<rparr>"

definition mk_request :: "string option \<Rightarrow> string \<Rightarrow> string \<Rightarrow> doc \<Rightarrow> request" where
  "mk_request a i m b =
     \<lparr>authorization = a, param_id = i, param_email = m, body = b, user = None\<rparr>"

text \<open>
  The server as the source file has it: no binding of \<^verbatim>\<open>MEMBER_PERMISSIONS\<close> is in
  scope. And the state it reaches from the first one when bob's membership is approved.
\<close>

definition env_shipped :: env where
  "env_shipped = env0\<lparr>MEMBER_PERMISSIONS := None\<rparr>"

definition db3 :: database where
  "db3 = db0\<lparr>memberships :=
             [[(''_id'', JOid mem1), (''clubId'', JStr club1),
               (''userEmail'', JStr ''bob@x.com''), (''status'', JStr ''active'')]]\<rparr>"

text \<open>A state in which bob's membership is active and a role grant of his is stored.\<close>

definition db1 :: database where
  "db1 = db0\<lparr>memberships :=
             [[(''_id'', JOid mem1), (''clubId'', JStr club1),
               (''userEmail'', JStr ''bob@x.com''), (''status'', JStr ''active'')]],
           club_roles :=
             [[(''clubId'', JStr club1), (''userEmail'', JStr ''bob@x.com''),
               (''role'', JStr ''member''), (''permissions'', JList [''view_events'']),
               (''assignedAt'', JDate 1000), (''_id'', JOid ''ffffffffffffffffffffffff'')]]\<rparr>"

text \<open>A state with a rejected application of bob and an approved one of eve.\<close>

definition app2 :: string where "app2 = ''a2a2a2a2a2a2a2a2a2a2a2a2''"

definition db2 :: database where
  "db2 = db0\<lparr>club_managers :=
             [[(''_id'', JOid app1), (''name'', JStr ''Bob''), (''email'', JStr ''bob@x.com''),
               (''reason'', JStr ''first try''), (''status'', JStr ''rejected''),
               (''appliedAt'', JDate 10)],
              [(''_id'', JOid app2), (''name'', JStr ''Eve''), (''email'', JStr ''eve@x.com''),
               (''status'', JStr ''approved''), (''appliedAt'', JDate 20)]]\<rparr>"

section \<open>Facts about documents and collections\<close>

lemma get_field_set_field:
  "get_field (set_field k v d) k' = (if k' = k then v else get_field d k')"
  by (induction d) (auto simp: get_field_def)

lemma get_field_apply_set_other:
  "k \<notin> fst ` set sets \<Longrightarrow> get_field (apply_set sets d) k = get_field d k"
  unfolding apply_set_def
  by (induction sets arbitrary: d) (auto simp: get_field_set_field)

lemma set_field_same: "map_of d k = Some v \<Longrightarrow> set_field k v d = d"
  by (induction d) auto

lemma set_field_changes: "get_field d k \<noteq> v \<Longrightarrow> set_field k v d \<noteq> d"
  by (metis get_field_set_field)

lemma find_split:
  "find P xs = Some d \<Longrightarrow>
     \<exists>pre post. xs = pre @ d # post \<and> list_all (\<lambda>x. \<not> P x) pre \<and> P d
        \<and> update_first P f xs = pre @ f d # post"
proof (induction xs)
  case Nil
  then show ?case by simp
next
  case (Cons x xs)
  show ?case
  proof (cases "P x")
    case True
    with Cons.prems have "x = d" by simp
    with True have "x # xs = [] @ d # xs \<and> list_all (\<lambda>x. \<not> P x) [] \<and> P d
        \<and> update_first P f (x # xs) = [] @ f d # xs" by simp
    then show ?thesis by blast
  next
    case False
    with Cons.prems have "find P xs = Some d" by simp
    from Cons.IH[OF this] obtain pre post where
      "xs = pre @ d # post" "list_all (\<lambda>x. \<not> P x) pre" "P d"
      "update_first P f xs = pre @ f d # post" by blast
    with False have "x # xs = (x # pre) @ d # post \<and> list_all (\<lambda>x. \<not> P x) (x # pre) \<and> P d
        \<and> update_first P f (x # xs) = (x # pre) @ f d # post" by simp
    then show ?thesis by blast
  qed
qed

lemma update_first_none: "find P xs = None \<Longrightarrow> update_first P f xs = xs"
  by (induction xs) (auto split: if_splits)

lemma update_first_id: "find P xs = Some d \<Longrightarrow> f d = d \<Longrightarrow> update_first P f xs = xs"
  by (induction xs) (auto split: if_splits)

lemma update_first_changes:
  "find P xs = Some d \<Longrightarrow> f d \<noteq> d \<Longrightarrow> update_first P f xs \<noteq> xs"
  by (induction xs) (auto split: if_splits)

lemma update_first_map: "(\<And>d. g (f d) = g d) \<Longrightarrow> map g (update_first P f xs) = map g xs"
  by (induction xs) auto

lemma length_update_first: "length (update_first P f xs) = length xs"
  by (induction xs) auto

lemma matches_same_value: "get_field u k = q \<Longrightarrow> matches [(k, q)] u"
  by (auto simp: matches_def field_matches_def)

section \<open>The credential verifier\<close>

lemma run_route_Respond:
  "m e db req = Respond r \<Longrightarrow> run_route (m # ms) h e db req = (Some r, db)"
  by simp

lemma run_route_Next:
  "m e db req = Next req' \<Longrightarrow> run_route (m # ms) h e db req = run_route ms h e db req'"
  by simp

text \<open>
  Claim C8. On every route whose first middleware is \<open>verifyFBToken\<close>, whatever the
  later middlewares \<open>ms\<close> and the handler \<open>h\<close> are: a request with no Authorization
  header, an empty one, or one whose second space-separated part is missing or empty is
  answered 401; a request whose token the identity authority rejects is answered 403; in
  both cases nothing after the verifier runs and the stored state is the one before the
  request.
\<close>

theorem verifyFBToken_fails_closed:
  "((authorization req = None \<or> authorization req = Some [] \<or>
      (\<exists>a. authorization req = Some a \<and>
           (index (split_on CHR '' '' a) 1 = None \<or> index (split_on CHR '' '' a) 1 = Some [])))
     \<longrightarrow> map_option status (fst (run_route (verifyFBToken # ms) h e db req)) = Some 401
         \<and> snd (run_route (verifyFBToken # ms) h e db req) = db)
   \<and> ((\<exists>a t. authorization req = Some a \<and> a \<noteq> [] \<and>
             index (split_on CHR '' '' a) 1 = Some t \<and> t \<noteq> [] \<and> verifyIdToken e t = None)
     \<longrightarrow> run_route (verifyFBToken # ms) h e db req = (Some (send 403 (Message ''Forbidden'')), db))"
proof (intro conjI impI)
  assume no_token: "authorization req = None \<or> authorization req = Some [] \<or>
      (\<exists>a. authorization req = Some a \<and>
           (index (split_on CHR '' '' a) 1 = None \<or> index (split_on CHR '' '' a) 1 = Some []))"
  then have "\<exists>m. verifyFBToken e db req = Respond (send 401 (Message m))"
    by (auto simp: verifyFBToken_def)
  then obtain m where "verifyFBToken e db req = Respond (send 401 (Message m))" ..
  then have "run_route (verifyFBToken # ms) h e db req = (Some (send 401 (Message m)), db)"
    by (rule run_route_Respond)
  then show "map_option status (fst (run_route (verifyFBToken # ms) h e db req)) = Some 401"
    and "snd (run_route (verifyFBToken # ms) h e db req) = db"
    by (simp_all add: send_def)
next
  assume "\<exists>a t. authorization req = Some a \<and> a \<noteq> [] \<and>
             index (split_on CHR '' '' a) 1 = Some t \<and> t \<noteq> [] \<and> verifyIdToken e t = None"
  then have "verifyFBToken e db req = Respond (send 403 (Message ''Forbidden''))"
    by (auto simp: verifyFBToken_def)
  then show "run_route (verifyFBToken # ms) h e db req = (Some (send 403 (Message ''Forbidden'')), db)"
    by (rule run_route_Respond)
qed

theorem verifyFBToken_fails_closed_witness:
  "authorization (mk_request None app1 [] [(''status'', JStr ''approved'')]) = None
   \<and> map_option status (fst (run_route [verifyFBToken] PATCH_club_managers_id env0 db0
        (mk_request None app1 [] [(''status'', JStr ''approved'')]))) = Some 401
   \<and> snd (run_route [verifyFBToken] PATCH_club_managers_id env0 db0
        (mk_request None app1 [] [(''status'', JStr ''approved'')])) = db0
   \<and> index (split_on CHR '' '' ''Bearer stale-token'') 1 = Some ''stale-token''
   \<and> verifyIdToken env0 ''stale-token'' = None
   \<and> run_route [verifyFBToken] PATCH_club_managers_id env0 db0
        (mk_request (Some ''Bearer stale-token'') app1 [] [(''status'', JStr ''approved'')])
       = (Some (send 403 (Message ''Forbidden'')), db0)"
proof -
  have h1: "authorization (mk_request None app1 [] [(''status'', JStr ''approved'')]) = None"
    by (simp add: mk_request_def)
  have h2: "index (split_on CHR '' '' ''Bearer stale-token'') 1 = Some ''stale-token''"
    by (simp add: index_def)
  have h3: "verifyIdToken env0 ''stale-token'' = None"
    by (simp add: env0_def tokens_def)
  have h4: "authorization (mk_request (Some ''Bearer stale-token'') app1 []
              [(''status'', JStr ''approved'')]) = Some ''Bearer stale-token''"
    by (simp add: mk_request_def)
  show ?thesis
    using h1 h2 h3 h4
      verifyFBToken_fails_closed [of "mk_request None app1 [] [(''status'', JStr ''approved'')]"
        "[]" PATCH_club_managers_id env0 db0]
      verifyFBToken_fails_closed [of "mk_request (Some ''Bearer stale-token'') app1 []
        [(''status'', JStr ''approved'')]" "[]" PATCH_club_managers_id env0 db0]
    by auto
qed

section \<open>Registration\<close>

lemma map_of_set_field: "map_of (set_field k v d) k = Some v"
  by (induction d) auto

lemma get_field_to_bson_map:
  "get_field (map (\<lambda>(k, v). (k, to_bson v)) d) k =
     (case map_of d k of None \<Rightarrow> JUndefined | Some v \<Rightarrow> to_bson v)"
  by (simp add: get_field_def map_of_map split: option.splits)


lemma stored_role_member:
  "get_field (map (\<lambda>(k, v). (k, to_bson v)) (set_field ''role'' (JStr ''member'') b)) ''role''
     = JStr ''member''"
  unfolding get_field_to_bson_map map_of_set_field by (simp add: to_bson_def)

lemma insertOne_role:
  assumes "insertOne f (set_field ''role'' (JStr ''member'') b) coll = Inr (i, coll')"
  shows "\<exists>d. coll' = coll @ [d] \<and> get_field d ''role'' = JStr ''member''"
  using assms stored_role_member[of b]
  by (auto simp: insertOne_def Let_def get_field_set_field split: if_splits)

lemma map_of_set_field_other: "k' \<noteq> k \<Longrightarrow> map_of (set_field k v d) k' = map_of d k'"
  by (induction d) auto

lemma JOid_not_missing: "JOid s \<noteq> JUndefined" "JOid s \<noteq> JNull"
  by (simp_all add: JOid_def)

lemma insertOne_new:
  assumes noid: "get_field b ''_id'' = JUndefined"
    and fr: "\<not> list_ex (\<lambda>u. get_field u ''_id'' = JOid f) coll"
  shows "\<exists>d. insertOne f (set_field ''role'' (JStr ''member'') b) coll = Inr (JOid f, coll @ [d])
           \<and> get_field d ''role'' = JStr ''member''
           \<and> get_field d ''_id'' = JOid f
           \<and> (\<forall>k. k \<noteq> ''role'' \<and> k \<noteq> ''_id''
                  \<longrightarrow> map_of d k = map_option to_bson (map_of b k))"
proof -
  let ?d1 = "map (\<lambda>(k, v). (k, to_bson v)) (set_field ''role'' (JStr ''member'') b)"
  let ?d = "set_field ''_id'' (JOid f) ?d1"
  have m1: "map_of ?d1 k = map_option to_bson (map_of (set_field ''role'' (JStr ''member'') b) k)"
    for k
    by (simp add: map_of_map)
  have "map_of ?d1 ''_id'' = map_option to_bson (map_of b ''_id'')"
    unfolding m1 by (simp add: map_of_set_field_other)
  with noid have "get_field ?d1 ''_id'' = JUndefined \<or> get_field ?d1 ''_id'' = JNull"
    unfolding get_field_def by (auto simp: to_bson_def split: option.splits)
  then have ins: "insertOne f (set_field ''role'' (JStr ''member'') b) coll
                    = Inr (JOid f, coll @ [?d])"
    using fr by (auto simp: insertOne_def Let_def get_field_set_field)
  have role: "get_field ?d ''role'' = JStr ''member''"
    by (simp add: get_field_set_field stored_role_member)
  have id: "get_field ?d ''_id'' = JOid f"
    by (simp add: get_field_set_field)
  have rest: "\<forall>k. k \<noteq> ''role'' \<and> k \<noteq> ''_id''
                  \<longrightarrow> map_of ?d k = map_option to_bson (map_of b k)"
    by (simp add: map_of_set_field_other m1)
  from ins role id rest show ?thesis by blast
qed

text \<open>
  Claim C9. POST /users: when a stored user has the email of the request body, the answer
  is 400 and nothing is stored. When no stored user matches that email, the body carries
  no \<open>_id\<close> and the generated id is unused, the answer is 201 and exactly one user record
  is appended: it has the generated id, the role \<open>member\<close> whatever role the body
  carried, and every other field exactly as the body gives it. In every case the request
  either stores nothing (and is not answered 201) or appends exactly one user record whose
  role is \<open>member\<close>.
\<close>

theorem POST_users_registers_member:
  "(list_ex (\<lambda>u. get_field u ''email'' = get_field (body req) ''email'') (users db)
      \<longrightarrow> route_POST_users e db req = (Some (send 400 (Message ''User already exists.'')), db))
   \<and> (findOne [(''email'', get_field (body req) ''email'')] (users db) = None
      \<and> get_field (body req) ''_id'' = JUndefined
      \<and> \<not> list_ex (\<lambda>u. get_field u ''_id'' = JOid (fresh e)) (users db)
      \<longrightarrow> (\<exists>d. route_POST_users e db req
                 = (Some (send 201 (InsertResult (JOid (fresh e)))),
                    db\<lparr>users := users db @ [d]\<rparr>)
               \<and> get_field d ''role'' = JStr ''member''
               \<and> get_field d ''_id'' = JOid (fresh e)
               \<and> (\<forall>k. k \<noteq> ''role'' \<and> k \<noteq> ''_id''
                      \<longrightarrow> map_of d k = map_option to_bson (map_of (body req) k))))
   \<and> ((\<exists>r. route_POST_users e db req = (Some r, db) \<and> status r \<noteq> 201)
      \<or> (\<exists>i d. route_POST_users e db req
                 = (Some (send 201 (InsertResult i)), db\<lparr>users := users db @ [d]\<rparr>)
               \<and> get_field d ''role'' = JStr ''member''))"
proof (intro conjI impI)
  assume "list_ex (\<lambda>u. get_field u ''email'' = get_field (body req) ''email'') (users db)"
  then obtain u where u: "u \<in> set (users db)"
      "get_field u ''email'' = get_field (body req) ''email''"
    by (auto simp: list_ex_iff)
  have "matches [(''email'', get_field (set_field ''role'' (JStr ''member'') (body req)) ''email'')] u"
    using u(2) by (intro matches_same_value) (simp add: get_field_set_field)
  with u(1) have "findOne [(''email'', get_field (set_field ''role'' (JStr ''member'') (body req)) ''email'')] (users db) \<noteq> None"
    by (auto simp: findOne_def find_None_iff)
  then show "route_POST_users e db req = (Some (send 400 (Message ''User already exists.'')), db)"
    by (auto simp: route_POST_users_def POST_users_def Let_def)
next
  assume H: "findOne [(''email'', get_field (body req) ''email'')] (users db) = None
      \<and> get_field (body req) ''_id'' = JUndefined
      \<and> \<not> list_ex (\<lambda>u. get_field u ''_id'' = JOid (fresh e)) (users db)"
  then have none: "findOne [(''email'',
        get_field (set_field ''role'' (JStr ''member'') (body req)) ''email'')] (users db) = None"
    by (simp add: get_field_set_field)
  from H have noid: "get_field (body req) ''_id'' = JUndefined"
    and fr: "\<not> list_ex (\<lambda>u. get_field u ''_id'' = JOid (fresh e)) (users db)"
    by simp_all
  from insertOne_new[OF noid fr] obtain d where
    ins: "insertOne (fresh e) (set_field ''role'' (JStr ''member'') (body req)) (users db)
            = Inr (JOid (fresh e), users db @ [d])"
    and d: "get_field d ''role'' = JStr ''member''" "get_field d ''_id'' = JOid (fresh e)"
      "\<forall>k. k \<noteq> ''role'' \<and> k \<noteq> ''_id''
           \<longrightarrow> map_of d k = map_option to_bson (map_of (body req) k)"
    by blast
  have "route_POST_users e db req
          = (Some (send 201 (InsertResult (JOid (fresh e)))), db\<lparr>users := users db @ [d]\<rparr>)"
    using none ins by (simp add: route_POST_users_def POST_users_def Let_def)
  with d show "\<exists>d. route_POST_users e db req
                 = (Some (send 201 (InsertResult (JOid (fresh e)))),
                    db\<lparr>users := users db @ [d]\<rparr>)
               \<and> get_field d ''role'' = JStr ''member''
               \<and> get_field d ''_id'' = JOid (fresh e)
               \<and> (\<forall>k. k \<noteq> ''role'' \<and> k \<noteq> ''_id''
                      \<longrightarrow> map_of d k = map_option to_bson (map_of (body req) k))"
    by blast
next
  show "(\<exists>r. route_POST_users e db req = (Some r, db) \<and> status r \<noteq> 201)
      \<or> (\<exists>i d. route_POST_users e db req
                 = (Some (send 201 (InsertResult i)), db\<lparr>users := users db @ [d]\<rparr>)
               \<and> get_field d ''role'' = JStr ''member'')"
  proof (cases "findOne [(''email'', get_field (set_field ''role'' (JStr ''member'') (body req)) ''email'')] (users db)")
    case (Some a)
    then show ?thesis
      by (simp add: route_POST_users_def POST_users_def Let_def send_def)
  next
    case None
    show ?thesis
    proof (cases "insertOne (fresh e) (set_field ''role'' (JStr ''member'') (body req)) (users db)")
      case (Inl err)
      with None show ?thesis
        by (simp add: route_POST_users_def POST_users_def Let_def send_def)
    next
      case (Inr p)
      obtain i us where p: "p = (i, us)" by (cases p)
      from insertOne_role[OF Inr[unfolded p]] obtain d where
        "us = users db @ [d]" "get_field d ''role'' = JStr ''member''" by blast
      with None Inr p have "route_POST_users e db req
          = (Some (send 201 (InsertResult i)), db\<lparr>users := users db @ [d]\<rparr>)"
        by (simp add: route_POST_users_def POST_users_def Let_def)
      with \<open>get_field d ''role'' = JStr ''member''\<close> show ?thesis by blast
    qed
  qed
qed

theorem POST_users_registers_member_witness:
  "list_ex (\<lambda>u. get_field u ''email'' = get_field (body (mk_request None [] []
        [(''email'', JStr ''bob@x.com''), (''role'', JStr ''super_admin'')])) ''email'') (users db0)
   \<and> route_POST_users env0 db0 (mk_request None [] []
        [(''email'', JStr ''bob@x.com''), (''role'', JStr ''super_admin'')])
       = (Some (send 400 (Message ''User already exists.'')), db0)
   \<and> findOne [(''email'', JStr ''zoe@x.com'')] (users db0) = None
   \<and> (\<exists>d. route_POST_users env0 db0 (mk_request None [] []
              [(''email'', JStr ''zoe@x.com''), (''role'', JStr ''super_admin'')])
           = (Some (send 201 (InsertResult (JOid ''ffffffffffffffffffffffff''))),
              db0\<lparr>users := users db0 @ [d]\<rparr>)
         \<and> get_field d ''role'' = JStr ''member''
         \<and> get_field d ''_id'' = JOid ''ffffffffffffffffffffffff''
         \<and> map_of d ''email'' = Some (JStr ''zoe@x.com''))
   \<and> route_POST_users env0 db0 (mk_request None [] []
        [(''email'', JStr ''zoe@x.com''), (''role'', JStr ''super_admin'')])
       = (Some (send 201 (InsertResult (JOid ''ffffffffffffffffffffffff''))),
          db0\<lparr>users := users db0 @
             [[(''email'', JStr ''zoe@x.com''), (''role'', JStr ''member''),
               (''_id'', JOid ''ffffffffffffffffffffffff'')]]\<rparr>)"
proof -
  let ?bob = "mk_request None [] []
        [(''email'', JStr ''bob@x.com''), (''role'', JStr ''super_admin'')]"
  let ?zoe = "mk_request None [] []
        [(''email'', JStr ''zoe@x.com''), (''role'', JStr ''super_admin'')]"
  have h: "list_ex (\<lambda>u. get_field u ''email'' = get_field (body ?bob) ''email'') (users db0)"
    by code_simp
  have w1: "route_POST_users env0 db0 ?bob
       = (Some (send 400 (Message ''User already exists.'')), db0)"
    by (rule POST_users_registers_member [THEN conjunct1, THEN mp]) (rule h)
  have zmail: "get_field (body ?zoe) ''email'' = JStr ''zoe@x.com''" by code_simp
  have fr0: "fresh env0 = ''ffffffffffffffffffffffff''" by (simp add: env0_def)
  have n: "findOne [(''email'', JStr ''zoe@x.com'')] (users db0) = None" by code_simp
  have noid: "get_field (body ?zoe) ''_id'' = JUndefined" by code_simp
  have fr: "\<not> list_ex (\<lambda>u. get_field u ''_id'' = JOid ''ffffffffffffffffffffffff'') (users db0)"
    by code_simp
  have zm: "map_of (body ?zoe) ''email'' = Some (JStr ''zoe@x.com'')"
    by (simp add: mk_request_def)
  from POST_users_registers_member [where req = ?zoe and db = db0 and e = env0,
      THEN conjunct2, THEN conjunct1, THEN mp, unfolded zmail fr0,
      OF conjI [OF n conjI [OF noid fr]]]
  obtain d where d: "route_POST_users env0 db0 ?zoe
           = (Some (send 201 (InsertResult (JOid ''ffffffffffffffffffffffff''))),
              db0\<lparr>users := users db0 @ [d]\<rparr>)"
      "get_field d ''role'' = JStr ''member''"
      "get_field d ''_id'' = JOid ''ffffffffffffffffffffffff''"
      "\<forall>k. k \<noteq> ''role'' \<and> k \<noteq> ''_id''
           \<longrightarrow> map_of d k = map_option to_bson (map_of (body ?zoe) k)"
    by blast
  from d(4) have "map_of d ''email'' = map_option to_bson (map_of (body ?zoe) ''email'')"
    by simp
  then have de: "map_of d ''email'' = Some (JStr ''zoe@x.com'')"
    unfolding zm by (simp add: to_bson_def)
  from d(1,2,3) de have w2: "\<exists>d. route_POST_users env0 db0 ?zoe
           = (Some (send 201 (InsertResult (JOid ''ffffffffffffffffffffffff''))),
              db0\<lparr>users := users db0 @ [d]\<rparr>)
         \<and> get_field d ''role'' = JStr ''member''
         \<and> get_field d ''_id'' = JOid ''ffffffffffffffffffffffff''
         \<and> map_of d ''email'' = Some (JStr ''zoe@x.com'')"
    by blast
  have c: "route_POST_users env0 db0 ?zoe
       = (Some (send 201 (InsertResult (JOid ''ffffffffffffffffffffffff''))),
          db0\<lparr>users := users db0 @
             [[(''email'', JStr ''zoe@x.com''), (''role'', JStr ''member''),
               (''_id'', JOid ''ffffffffffffffffffffffff'')]]\<rparr>)"
    by code_simp
  show ?thesis
    by (intro conjI h w1 n w2 c)
qed

section \<open>Club updates and the club owner guard\<close>

lemma updateOne_no_match:
  "findOne flt coll = None \<Longrightarrow>
     updateOne flt sets coll
       = Inr (\<lparr>matchedCount = 0, modifiedCount = 0, upsertedCount = 0\<rparr>, coll)"
  by (simp add: updateOne_def updateOneGen_def)

lemma updateOne_frame:
  assumes "updateOne flt sets coll = Inr (r, coll')" and "k \<notin> fst ` set sets"
  shows "map (\<lambda>c. get_field c k) coll' = map (\<lambda>c. get_field c k) coll"
proof (cases "findOne flt coll")
  case None
  with assms(1) show ?thesis by (simp add: updateOne_no_match)
next
  case (Some d)
  with assms(1) have "coll' = update_first (matches flt) (apply_set sets) coll"
    by (simp add: updateOne_def updateOneGen_def Let_def split: if_splits)
  then show ?thesis
    using assms(2) by (simp add: update_first_map get_field_apply_set_other)
qed

lemma fst_club_updateDoc:
  "fst ` set (club_updateDoc b) \<subseteq> set [''status'', ''clubName'', ''description'', ''location'',
       ''category'', ''bannerImage'', ''membershipFee'']"
  by (auto simp: club_updateDoc_def set_if_truthy_def split: if_splits)

lemma PATCH_clubs_id_others:
  "snd (PATCH_clubs_id e db req) = db\<lparr>clubs := clubs (snd (PATCH_clubs_id e db req))\<rparr>"
  by (simp add: PATCH_clubs_id_def Let_def split: sum.splits prod.splits)

lemma PATCH_clubs_id_fields:
  assumes "k \<notin> set [''status'', ''clubName'', ''description'', ''location'', ''category'',
                     ''bannerImage'', ''membershipFee'']"
  shows "map (\<lambda>c. get_field c k) (clubs (snd (PATCH_clubs_id e db req)))
           = map (\<lambda>c. get_field c k) (clubs db)"
proof -
  have "k \<notin> fst ` set (club_updateDoc (body req))"
    using assms fst_club_updateDoc[of "body req"] by blast
  then show ?thesis
    by (auto simp: PATCH_clubs_id_def Let_def split: sum.splits prod.splits
          dest: updateOne_frame)
qed

lemma run_route_verifyFBToken:
  "run_route [verifyFBToken] h e db req =
     (case verifyFBToken e db req of
        Next r \<Rightarrow> (Some (fst (h e db r)), snd (h e db r))
      | Respond x \<Rightarrow> (Some x, db)
      | Unhandled \<Rightarrow> (None, db))"
  by (simp split: outcome.splits prod.splits)

lemma run_route_verifyFBToken_snd:
  "snd (run_route [verifyFBToken] h e db req) = db
   \<or> (\<exists>r. snd (run_route [verifyFBToken] h e db req) = snd (h e db r))"
  unfolding run_route_verifyFBToken by (cases "verifyFBToken e db req") auto

text \<open>
  Claim C7. PATCH /clubs/:id changes no club field outside the seven it enumerates, so
  the owner email \<open>userEmail\<close> of every stored club is the one before the request, and
  no other collection is written. The club owner guard \<open>verifyClubPermission\<close> decides
  from the stored club selected by the path identifier and the verified email alone: it
  admits exactly when that club's stored \<open>userEmail\<close> equals the verified email, and its
  decision is the same for every request body. The path identifier selects the club in
  either letter case.
\<close>

theorem PATCH_clubs_id_keeps_owner:
  "(k \<notin> set [''status'', ''clubName'', ''description'', ''location'', ''category'',
               ''bannerImage'', ''membershipFee'']
      \<longrightarrow> map (\<lambda>c. get_field c k) (clubs (snd (route_PATCH_clubs_id e db req)))
            = map (\<lambda>c. get_field c k) (clubs db))
   \<and> map (\<lambda>c. get_field c ''userEmail'') (clubs (snd (route_PATCH_clubs_id e db req)))
        = map (\<lambda>c. get_field c ''userEmail'') (clubs db)
   \<and> snd (route_PATCH_clubs_id e db req)
        = db\<lparr>clubs := clubs (snd (route_PATCH_clubs_id e db req))\<rparr>
   \<and> verifyClubPermission e db (req\<lparr>body := b\<rparr>)
        = (case verifyClubPermission e db req of
             Next r \<Rightarrow> Next (r\<lparr>body := b\<rparr>) | Respond x \<Rightarrow> Respond x | Unhandled \<Rightarrow> Unhandled)
   \<and> ((\<exists>r. verifyClubPermission e db req = Next r)
        = (\<exists>u club. user req = Some u \<and> ObjectId_isValid (param_id req)
              \<and> findOne [(''_id'', JOid (param_id req))] (clubs db) = Some club
              \<and> strict_eq (get_field club ''userEmail'') (get_field u ''email'')))"
proof (intro conjI impI)
  have frame: "map (\<lambda>c. get_field c k') (clubs (snd (route_PATCH_clubs_id e db req)))
            = map (\<lambda>c. get_field c k') (clubs db)"
    if "k' \<notin> set [''status'', ''clubName'', ''description'', ''location'', ''category'',
               ''bannerImage'', ''membershipFee'']" for k'
    using run_route_verifyFBToken_snd[of PATCH_clubs_id e db req] PATCH_clubs_id_fields[OF that]
    unfolding route_PATCH_clubs_id_def by auto
  show "map (\<lambda>c. get_field c ''userEmail'') (clubs (snd (route_PATCH_clubs_id e db req)))
        = map (\<lambda>c. get_field c ''userEmail'') (clubs db)"
    by (rule frame) simp
  show "map (\<lambda>c. get_field c k) (clubs (snd (route_PATCH_clubs_id e db req)))
            = map (\<lambda>c. get_field c k) (clubs db)"
    if "k \<notin> set [''status'', ''clubName'', ''description'', ''location'', ''category'',
               ''bannerImage'', ''membershipFee'']"
    using that by (rule frame)
  show "snd (route_PATCH_clubs_id e db req)
        = db\<lparr>clubs := clubs (snd (route_PATCH_clubs_id e db req))\<rparr>"
    using run_route_verifyFBToken_snd[of PATCH_clubs_id e db req] PATCH_clubs_id_others
    unfolding route_PATCH_clubs_id_def by auto
  show "verifyClubPermission e db (req\<lparr>body := b\<rparr>)
        = (case verifyClubPermission e db req of
             Next r \<Rightarrow> Next (r\<lparr>body := b\<rparr>) | Respond x \<Rightarrow> Respond x | Unhandled \<Rightarrow> Unhandled)"
    by (simp add: verifyClubPermission_def Let_def split: option.splits sum.splits)
  show "(\<exists>r. verifyClubPermission e db req = Next r)
        = (\<exists>u club. user req = Some u \<and> ObjectId_isValid (param_id req)
              \<and> findOne [(''_id'', JOid (param_id req))] (clubs db) = Some club
              \<and> strict_eq (get_field club ''userEmail'') (get_field u ''email''))"
    by (auto simp: verifyClubPermission_def Let_def ObjectId_def ObjectId_isValid_def
          split: option.splits sum.splits if_splits)
qed

theorem PATCH_clubs_id_keeps_owner_witness:
  "''userEmail'' \<notin> set [''status'', ''clubName'', ''description'', ''location'', ''category'',
               ''bannerImage'', ''membershipFee'']
   \<and> route_PATCH_clubs_id env0 db0 (mk_request (Some ''Bearer alice-token'') club1 []
          [(''clubName'', JStr ''Go''), (''userEmail'', JStr ''eve@x.com''), (''membershipFee'', JNum 0)])
       = (Some (send 200 (UpdateResult \<lparr>matchedCount = 1, modifiedCount = 1, upsertedCount = 0\<rparr>)),
          db0\<lparr>clubs := [[(''_id'', JOid club1), (''clubName'', JStr ''Go''),
              (''userEmail'', JStr ''alice@x.com''), (''status'', JStr ''approved''),
              (''membershipFee'', JNum 0)]]\<rparr>)
   \<and> map (\<lambda>c. get_field c ''userEmail'') (clubs (snd (route_PATCH_clubs_id env0 db0
          (mk_request (Some ''Bearer alice-token'') club1 []
            [(''clubName'', JStr ''Go''), (''userEmail'', JStr ''eve@x.com''),
             (''membershipFee'', JNum 0)]))))
       = map (\<lambda>c. get_field c ''userEmail'') (clubs db0)
   \<and> route_PATCH_clubs_id env0 db0
        (mk_request (Some ''Bearer alice-token'') ''C1C1C1C1C1C1C1C1C1C1C1C1'' []
          [(''clubName'', JStr ''Go''), (''userEmail'', JStr ''eve@x.com'')])
       = (Some (send 200 (UpdateResult \<lparr>matchedCount = 1, modifiedCount = 1, upsertedCount = 0\<rparr>)),
          db0\<lparr>clubs := [[(''_id'', JOid club1), (''clubName'', JStr ''Go''),
              (''userEmail'', JStr ''alice@x.com''), (''status'', JStr ''approved'')]]\<rparr>)
   \<and> findOne [(''_id'', JOid ''C1C1C1C1C1C1C1C1C1C1C1C1'')] (clubs db0)
       = Some [(''_id'', JOid club1), (''clubName'', JStr ''Chess''),
               (''userEmail'', JStr ''alice@x.com''), (''status'', JStr ''approved'')]
   \<and> (\<exists>r. verifyClubPermission env0 db0
          ((mk_request (Some ''Bearer alice-token'') ''C1C1C1C1C1C1C1C1C1C1C1C1'' []
              [(''userEmail'', JStr ''eve@x.com'')])
             \<lparr>user := Some [(''email'', JStr ''alice@x.com'')]\<rparr>) = Next r)
   \<and> verifyClubPermission env0 db0
          ((mk_request (Some ''Bearer root-token'') ''C1C1C1C1C1C1C1C1C1C1C1C1'' []
              [(''userEmail'', JStr ''root@x.com'')])
             \<lparr>user := Some [(''email'', JStr ''root@x.com'')]\<rparr>)
       = Respond (send 403 (Message ''Forbidden: You are not the manager of this club.''))"
proof -
  let ?up = "''C1C1C1C1C1C1C1C1C1C1C1C1''"
  let ?club = "[(''_id'', JOid club1), (''clubName'', JStr ''Chess''),
               (''userEmail'', JStr ''alice@x.com''), (''status'', JStr ''approved'')]"
  let ?g = "(mk_request (Some ''Bearer alice-token'') ?up [] [(''userEmail'', JStr ''eve@x.com'')])
             \<lparr>user := Some [(''email'', JStr ''alice@x.com'')]\<rparr>"
  have h: "''userEmail'' \<notin> set [''status'', ''clubName'', ''description'', ''location'',
               ''category'', ''bannerImage'', ''membershipFee'']"
    by simp
  have c: "route_PATCH_clubs_id env0 db0 (mk_request (Some ''Bearer alice-token'') club1 []
          [(''clubName'', JStr ''Go''), (''userEmail'', JStr ''eve@x.com''), (''membershipFee'', JNum 0)])
       = (Some (send 200 (UpdateResult \<lparr>matchedCount = 1, modifiedCount = 1, upsertedCount = 0\<rparr>)),
          db0\<lparr>clubs := [[(''_id'', JOid club1), (''clubName'', JStr ''Go''),
              (''userEmail'', JStr ''alice@x.com''), (''status'', JStr ''approved''),
              (''membershipFee'', JNum 0)]]\<rparr>)"
    by code_simp
  have w3: "map (\<lambda>c. get_field c ''userEmail'') (clubs (snd (route_PATCH_clubs_id env0 db0
          (mk_request (Some ''Bearer alice-token'') club1 []
            [(''clubName'', JStr ''Go''), (''userEmail'', JStr ''eve@x.com''),
             (''membershipFee'', JNum 0)]))))
       = map (\<lambda>c. get_field c ''userEmail'') (clubs db0)"
    by (rule PATCH_clubs_id_keeps_owner [where k = "''userEmail''", THEN conjunct1, THEN mp])
       (rule h)
  have cu: "route_PATCH_clubs_id env0 db0
        (mk_request (Some ''Bearer alice-token'') ?up []
          [(''clubName'', JStr ''Go''), (''userEmail'', JStr ''eve@x.com'')])
       = (Some (send 200 (UpdateResult \<lparr>matchedCount = 1, modifiedCount = 1, upsertedCount = 0\<rparr>)),
          db0\<lparr>clubs := [[(''_id'', JOid club1), (''clubName'', JStr ''Go''),
              (''userEmail'', JStr ''alice@x.com''), (''status'', JStr ''approved'')]]\<rparr>)"
    by code_simp
  have u: "user ?g = Some [(''email'', JStr ''alice@x.com'')]" by (simp add: mk_request_def)
  have pid: "param_id ?g = ?up" by (simp add: mk_request_def)
  have v: "ObjectId_isValid ?up" by code_simp
  have f: "findOne [(''_id'', JOid ?up)] (clubs db0) = Some ?club" by code_simp
  have s: "strict_eq (get_field ?club ''userEmail'')
             (get_field [(''email'', JStr ''alice@x.com'')] ''email'')"
    by code_simp
  have rhs: "\<exists>u club. user ?g = Some u \<and> ObjectId_isValid (param_id ?g)
              \<and> findOne [(''_id'', JOid (param_id ?g))] (clubs db0) = Some club
              \<and> strict_eq (get_field club ''userEmail'') (get_field u ''email'')"
    unfolding pid using u v f s by blast
  have admit: "\<exists>r. verifyClubPermission env0 db0 ?g = Next r"
    using PATCH_clubs_id_keeps_owner [where e = env0 and db = db0 and req = ?g,
        THEN conjunct2, THEN conjunct2, THEN conjunct2, THEN conjunct2] rhs
    by (rule iffD2)
  have deny: "verifyClubPermission env0 db0
          ((mk_request (Some ''Bearer root-token'') ?up [] [(''userEmail'', JStr ''root@x.com'')])
             \<lparr>user := Some [(''email'', JStr ''root@x.com'')]\<rparr>)
       = Respond (send 403 (Message ''Forbidden: You are not the manager of this club.''))"
    by code_simp
  show ?thesis
    by (intro conjI h c w3 cu f admit deny)
qed

section \<open>Member approval and role grants\<close>

lemma updateOneGen_match:
  assumes "findOne flt coll = Some d" and "''_id'' \<notin> fst ` set sets"
  shows "updateOneGen ups f flt sets ins coll
           = Inr (\<lparr>matchedCount = 1, modifiedCount = (if apply_set sets d = d then 0 else 1),
                   upsertedCount = 0\<rparr>,
                  update_first (matches flt) (apply_set sets) coll)"
  using assms by (simp add: updateOneGen_def Let_def get_field_apply_set_other)

lemma updateOne_match:
  assumes "findOne flt coll = Some d" and "''_id'' \<notin> fst ` set sets"
  shows "updateOne flt sets coll
           = Inr (\<lparr>matchedCount = 1, modifiedCount = (if apply_set sets d = d then 0 else 1),
                   upsertedCount = 0\<rparr>,
                  update_first (matches flt) (apply_set sets) coll)"
  unfolding updateOne_def using assms by (rule updateOneGen_match)

lemma updateOne_modified:
  assumes "updateOne flt sets coll = Inr (r, coll')" and "modifiedCount r > 0"
  shows "coll' \<noteq> coll"
proof (cases "findOne flt coll")
  case None
  with assms show ?thesis by (auto simp: updateOne_no_match)
next
  case (Some d)
  with assms have "apply_set sets d \<noteq> d"
      and "coll' = update_first (matches flt) (apply_set sets) coll"
    by (auto simp: updateOne_def updateOneGen_def Let_def split: if_splits)
  with Some show ?thesis
    by (simp add: findOne_def update_first_changes)
qed

lemma matches_apply_set:
  "fst ` set flt \<inter> fst ` set sets = {} \<Longrightarrow> matches flt (apply_set sets d) = matches flt d"
proof -
  assume disj: "fst ` set flt \<inter> fst ` set sets = {}"
  have "field_matches (get_field (apply_set sets d) k) q = field_matches (get_field d k) q"
    if "(k, q) \<in> set flt" for k q
  proof -
    from that disj have "k \<notin> fst ` set sets" by force
    then show ?thesis by (simp add: get_field_apply_set_other)
  qed
  then show ?thesis
    unfolding matches_def list_all_iff by auto
qed

lemma find_update_first:
  "find P xs = Some d \<Longrightarrow> P (f d) \<Longrightarrow> find P (update_first P f xs) = Some (f d)"
  by (induction xs) (auto split: if_splits)

lemma filter_update_first:
  "(\<And>d. P (f d) = P d) \<Longrightarrow> filter P (update_first P f xs) = update_first P f (filter P xs)"
  by (induction xs) auto

lemma apply_set_status_same:
  "get_field m ''status'' = JStr s \<Longrightarrow> apply_set [(''status'', JStr s)] m = m"
  by (auto simp: apply_set_def to_bson_def get_field_def set_field_same split: option.splits)

lemma apply_set_status_changes:
  "get_field m ''status'' \<noteq> JStr s \<Longrightarrow> apply_set [(''status'', JStr s)] m \<noteq> m"
  by (simp add: apply_set_def to_bson_def set_field_changes)

lemma verifyFBToken_Next: "verifyFBToken e db req = Next r \<Longrightarrow> \<exists>u. r = req\<lparr>user := Some u\<rparr>"
  by (auto simp: verifyFBToken_def split: option.splits if_splits)

lemma member_status_user [simp]:
  "PATCH_clubs_id_members_email_status e db (req\<lparr>user := u\<rparr>)
     = PATCH_clubs_id_members_email_status e db req"
  by (simp add: PATCH_clubs_id_members_email_status_def)

lemma route_member_status_authenticated:
  assumes "verifyFBToken e db req = Next r"
  shows "route_PATCH_clubs_id_members_email_status e db req
           = (Some (fst (PATCH_clubs_id_members_email_status e db req)),
              snd (PATCH_clubs_id_members_email_status e db req))"
  using verifyFBToken_Next[OF assms] assms
  by (auto simp: route_PATCH_clubs_id_members_email_status_def split: prod.splits)

lemma member_status_no_match_handler:
  assumes "get_field (body req) ''status'' = JStr ''active''
           \<or> get_field (body req) ''status'' = JStr ''rejected''"
    and "findOne [(''clubId'', JStr (param_id req)), (''userEmail'', JStr (param_email req))]
           (memberships db) = None"
  shows "PATCH_clubs_id_members_email_status e db req
           = (send 200 (UpdateResult \<lparr>matchedCount = 0, modifiedCount = 0, upsertedCount = 0\<rparr>), db)"
  using assms
  by (auto simp: PATCH_clubs_id_members_email_status_def Let_def updateOne_no_match)

lemma member_status_already_active_handler:
  assumes "get_field (body req) ''status'' = JStr ''active''"
    and "findOne [(''clubId'', JStr (param_id req)), (''userEmail'', JStr (param_email req))]
           (memberships db) = Some m"
    and "get_field m ''status'' = JStr ''active''"
  shows "PATCH_clubs_id_members_email_status e db req
           = (send 200 (UpdateResult \<lparr>matchedCount = 1, modifiedCount = 0, upsertedCount = 0\<rparr>), db)"
proof -
  have same: "apply_set [(''status'', JStr ''active'')] m = m"
    using assms(3) by (rule apply_set_status_same)
  have "updateOne [(''clubId'', JStr (param_id req)), (''userEmail'', JStr (param_email req))]
          [(''status'', JStr ''active'')] (memberships db)
        = Inr (\<lparr>matchedCount = 1, modifiedCount = 0, upsertedCount = 0\<rparr>, memberships db)"
    using updateOne_match[OF assms(2), of "[(''status'', JStr ''active'')]"] same assms(2)
    by (simp add: findOne_def update_first_id)
  then show ?thesis
    using assms(1) by (simp add: PATCH_clubs_id_members_email_status_def Let_def)
qed

lemma member_status_roles_written:
  assumes "club_roles (snd (PATCH_clubs_id_members_email_status e db req)) \<noteq> club_roles db"
  shows "get_field (body req) ''status'' = JStr ''active''
         \<and> memberships (snd (PATCH_clubs_id_members_email_status e db req)) \<noteq> memberships db"
  using assms
  by (auto simp: PATCH_clubs_id_members_email_status_def Let_def
        split: if_splits sum.splits prod.splits option.splits dest: updateOne_modified)

lemma route_member_status_cases:
  "(\<exists>x. route_PATCH_clubs_id_members_email_status e db req = (x, db))
   \<or> route_PATCH_clubs_id_members_email_status e db req
        = (Some (fst (PATCH_clubs_id_members_email_status e db req)),
           snd (PATCH_clubs_id_members_email_status e db req))"
proof (cases "verifyFBToken e db req")
  case (Next r)
  then show ?thesis by (simp add: route_member_status_authenticated)
qed (simp_all add: route_PATCH_clubs_id_members_email_status_def)

text \<open>
  Claim C10. PATCH /clubs/:id/members/:email/status with an accepted status (active or
  rejected) and an accepted token: when no membership document has the (clubId, userEmail)
  pair, the answer is 200 with zero matched rows, not 404, and nothing is written. For every
  request, the role grants are written only if the requested status is active and the
  membership collection was modified. Re-sending active for a membership that is already
  active is answered 200 and writes nothing.
\<close>

theorem member_status_derived_write_guarded:
  "(verifyFBToken e db req = Next r
      \<and> (get_field (body req) ''status'' = JStr ''active''
          \<or> get_field (body req) ''status'' = JStr ''rejected'')
      \<and> findOne [(''clubId'', JStr (param_id req)), (''userEmail'', JStr (param_email req))]
            (memberships db) = None
     \<longrightarrow> route_PATCH_clubs_id_members_email_status e db req
          = (Some (send 200
               (UpdateResult \<lparr>matchedCount = 0, modifiedCount = 0, upsertedCount = 0\<rparr>)), db))
   \<and> (club_roles (snd (route_PATCH_clubs_id_members_email_status e db req)) \<noteq> club_roles db
     \<longrightarrow> get_field (body req) ''status'' = JStr ''active''
         \<and> memberships (snd (route_PATCH_clubs_id_members_email_status e db req))
             \<noteq> memberships db)
   \<and> (verifyFBToken e db req = Next r
      \<and> get_field (body req) ''status'' = JStr ''active''
      \<and> findOne [(''clubId'', JStr (param_id req)), (''userEmail'', JStr (param_email req))]
            (memberships db) = Some m
      \<and> get_field m ''status'' = JStr ''active''
     \<longrightarrow> route_PATCH_clubs_id_members_email_status e db req
          = (Some (send 200
               (UpdateResult \<lparr>matchedCount = 1, modifiedCount = 0, upsertedCount = 0\<rparr>)), db))"
proof (intro conjI impI)
  assume "verifyFBToken e db req = Next r
      \<and> (get_field (body req) ''status'' = JStr ''active''
          \<or> get_field (body req) ''status'' = JStr ''rejected'')
      \<and> findOne [(''clubId'', JStr (param_id req)), (''userEmail'', JStr (param_email req))]
            (memberships db) = None"
  then show "route_PATCH_clubs_id_members_email_status e db req
          = (Some (send 200
               (UpdateResult \<lparr>matchedCount = 0, modifiedCount = 0, upsertedCount = 0\<rparr>)), db)"
    by (simp add: route_member_status_authenticated member_status_no_match_handler)
next
  assume ch: "club_roles (snd (route_PATCH_clubs_id_members_email_status e db req))
                \<noteq> club_roles db"
  with route_member_status_cases[of e db req]
  have eq: "route_PATCH_clubs_id_members_email_status e db req
        = (Some (fst (PATCH_clubs_id_members_email_status e db req)),
           snd (PATCH_clubs_id_members_email_status e db req))"
    by auto
  with ch have "club_roles (snd (PATCH_clubs_id_members_email_status e db req)) \<noteq> club_roles db"
    by simp
  from member_status_roles_written[OF this] eq
  show "get_field (body req) ''status'' = JStr ''active''"
    and "memberships (snd (route_PATCH_clubs_id_members_email_status e db req))
             \<noteq> memberships db"
    by simp_all
next
  assume "verifyFBToken e db req = Next r
      \<and> get_field (body req) ''status'' = JStr ''active''
      \<and> findOne [(''clubId'', JStr (param_id req)), (''userEmail'', JStr (param_email req))]
            (memberships db) = Some m
      \<and> get_field m ''status'' = JStr ''active''"
  then show "route_PATCH_clubs_id_members_email_status e db req
          = (Some (send 200
               (UpdateResult \<lparr>matchedCount = 1, modifiedCount = 0, upsertedCount = 0\<rparr>)), db)"
    by (simp add: route_member_status_authenticated member_status_already_active_handler)
qed

theorem member_status_derived_write_guarded_witness:
  "route_PATCH_clubs_id_members_email_status env0 db0
      (mk_request (Some ''Bearer alice-token'') club1 ''zoe@x.com'' [(''status'', JStr ''active'')])
     = (Some (send 200
          (UpdateResult \<lparr>matchedCount = 0, modifiedCount = 0, upsertedCount = 0\<rparr>)), db0)
   \<and> route_PATCH_clubs_id_members_email_status env0 db0
      (mk_request (Some ''Bearer alice-token'') club1 ''bob@x.com'' [(''status'', JStr ''active'')])
     = (Some (send 200
          (UpdateResult \<lparr>matchedCount = 1, modifiedCount = 1, upsertedCount = 0\<rparr>)), db1)
   \<and> club_roles db1 \<noteq> club_roles db0
   \<and> memberships db1 \<noteq> memberships db0
   \<and> route_PATCH_clubs_id_members_email_status env0 db1
      (mk_request (Some ''Bearer alice-token'') club1 ''bob@x.com'' [(''status'', JStr ''active'')])
     = (Some (send 200
          (UpdateResult \<lparr>matchedCount = 1, modifiedCount = 0, upsertedCount = 0\<rparr>)), db1)"
proof -
  let ?zoe = "mk_request (Some ''Bearer alice-token'') club1 ''zoe@x.com''
                [(''status'', JStr ''active'')]"
  let ?bob = "mk_request (Some ''Bearer alice-token'') club1 ''bob@x.com''
                [(''status'', JStr ''active'')]"
  have auth_zoe: "verifyFBToken env0 db0 ?zoe
                    = Next (?zoe\<lparr>user := Some [(''email'', JStr ''alice@x.com'')]\<rparr>)"
    by code_simp
  have auth_bob: "verifyFBToken env0 db1 ?bob
                    = Next (?bob\<lparr>user := Some [(''email'', JStr ''alice@x.com'')]\<rparr>)"
    by code_simp
  have st_zoe: "get_field (body ?zoe) ''status'' = JStr ''active''" by code_simp
  have st_bob: "get_field (body ?bob) ''status'' = JStr ''active''" by code_simp
  have none: "findOne [(''clubId'', JStr (param_id ?zoe)), (''userEmail'', JStr (param_email ?zoe))]
                (memberships db0) = None"
    by code_simp
  have some: "findOne [(''clubId'', JStr (param_id ?bob)), (''userEmail'', JStr (param_email ?bob))]
                (memberships db1)
              = Some [(''_id'', JOid mem1), (''clubId'', JStr club1),
                      (''userEmail'', JStr ''bob@x.com''), (''status'', JStr ''active'')]"
    by code_simp
  have act: "get_field [(''_id'', JOid mem1), (''clubId'', JStr club1),
                      (''userEmail'', JStr ''bob@x.com''), (''status'', JStr ''active'')] ''status''
              = JStr ''active''"
    by code_simp
  have first: "route_PATCH_clubs_id_members_email_status env0 db0 ?bob
     = (Some (send 200
          (UpdateResult \<lparr>matchedCount = 1, modifiedCount = 1, upsertedCount = 0\<rparr>)), db1)"
    by code_simp
  have roles: "club_roles db1 \<noteq> club_roles db0" by code_simp
  have w1: "route_PATCH_clubs_id_members_email_status env0 db0 ?zoe
     = (Some (send 200
          (UpdateResult \<lparr>matchedCount = 0, modifiedCount = 0, upsertedCount = 0\<rparr>)), db0)"
    by (rule member_status_derived_write_guarded [THEN conjunct1, THEN mp])
       (rule conjI [OF auth_zoe conjI [OF disjI1 [OF st_zoe] none]])
  have "club_roles (snd (route_PATCH_clubs_id_members_email_status env0 db0 ?bob))
          \<noteq> club_roles db0"
    unfolding first snd_conv by (rule roles)
  from member_status_derived_write_guarded [THEN conjunct2, THEN conjunct1, THEN mp, OF this]
  have w2: "memberships db1 \<noteq> memberships db0"
    unfolding first snd_conv by (rule conjunct2)
  have w3: "route_PATCH_clubs_id_members_email_status env0 db1 ?bob
     = (Some (send 200
          (UpdateResult \<lparr>matchedCount = 1, modifiedCount = 0, upsertedCount = 0\<rparr>)), db1)"
    by (rule member_status_derived_write_guarded [THEN conjunct2, THEN conjunct2, THEN mp])
       (rule conjI [OF auth_bob conjI [OF st_bob conjI [OF some act]]])
  show ?thesis
    by (intro conjI w1 first roles w2 w3)
qed

lemma member_status_no_binding:
  assumes "MEMBER_PERMISSIONS e = None"
  shows "club_roles (snd (PATCH_clubs_id_members_email_status e db req)) = club_roles db"
  using assms
  by (simp add: PATCH_clubs_id_members_email_status_def Let_def
        split: sum.splits prod.splits)

text \<open>
  Claim C5. The claim is that approving a pending membership produces exactly one role
  grant for the pair, with role \<open>member\<close> and a non-empty permission set, and that the
  retry adds none. The handler builds the grant from \<^verbatim>\<open>MEMBER_PERMISSIONS\<close>, a name with
  no declaration in the source file. The approval of bob's pending membership therefore
  sets the membership to active, throws before the grant is written and is answered 500:
  no grant of the pair is stored. The retry finds the membership already active, modifies
  nothing, skips the grant and is answered 200: the grant is never written.
\<close>

theorem member_approval_writes_no_grant:
  "MEMBER_PERMISSIONS env_shipped = None
   \<and> findOne [(''clubId'', JStr club1), (''userEmail'', JStr ''bob@x.com'')] (memberships db0)
       = Some [(''_id'', JOid mem1), (''clubId'', JStr club1),
               (''userEmail'', JStr ''bob@x.com''), (''status'', JStr ''pending'')]
   \<and> route_PATCH_clubs_id_members_email_status env_shipped db0
        (mk_request (Some ''Bearer alice-token'') club1 ''bob@x.com'' [(''status'', JStr ''active'')])
       = (Some (send 500 (Message ''Failed to update member status'')), db3)
   \<and> findOne [(''clubId'', JStr club1), (''userEmail'', JStr ''bob@x.com'')] (memberships db3)
       = Some [(''_id'', JOid mem1), (''clubId'', JStr club1),
               (''userEmail'', JStr ''bob@x.com''), (''status'', JStr ''active'')]
   \<and> filter (matches [(''clubId'', JStr club1), (''userEmail'', JStr ''bob@x.com'')])
        (club_roles db3) = []
   \<and> route_PATCH_clubs_id_members_email_status env_shipped db3
        (mk_request (Some ''Bearer alice-token'') club1 ''bob@x.com'' [(''status'', JStr ''active'')])
       = (Some (send 200
            (UpdateResult \<lparr>matchedCount = 1, modifiedCount = 0, upsertedCount = 0\<rparr>)), db3)"
  by code_simp

section \<open>Manager applications\<close>

lemma reapplication_fields:
  fixes a :: doc and n rs p :: jsval and t :: nat
  defines "sets \<equiv> [(''name'', n), (''reason'', rs), (''photoURL'', p),
                    (''status'', JStr ''pending''), (''appliedAt'', JDate t)]"
  shows "get_field (apply_set sets a) ''name'' = to_bson n"
    and "get_field (apply_set sets a) ''reason'' = to_bson rs"
    and "get_field (apply_set sets a) ''photoURL'' = to_bson p"
    and "get_field (apply_set sets a) ''status'' = JStr ''pending''"
    and "get_field (apply_set sets a) ''appliedAt'' = JDate t"
    and "k \<notin> set [''name'', ''reason'', ''photoURL'', ''status'', ''appliedAt'']
           \<Longrightarrow> get_field (apply_set sets a) k = get_field a k"
  by (simp_all add: sets_def apply_set_def get_field_set_field) (simp_all add: to_bson_def)

text \<open>
  Claim C6. POST /club-managers with a name and an email, when the stored application
  found for that email is rejected: the answer is 200, that application (and no other
  document) is rewritten in place with status pending, the name, reason and photo of the
  body and the current time as \<open>appliedAt\<close>, and every other field of it, its email and
  its \<open>_id\<close> among them, is as before. When the stored application is approved the answer
  is 409 and nothing is written.
\<close>

theorem reapplication_after_rejection:
  "(truthy (get_field (body req) ''name'') \<and> truthy (get_field (body req) ''email'')
      \<and> findOne [(''email'', get_field (body req) ''email'')] (club_managers db) = Some app
      \<and> get_field app ''status'' = JStr ''rejected''
     \<longrightarrow> (\<exists>pre post app'.
            club_managers db = pre @ app # post
          \<and> route_POST_club_managers e db req
              = (Some (send 200 (MessageResult ''Re-application submitted successfully.''
                   \<lparr>matchedCount = 1, modifiedCount = 1, upsertedCount = 0\<rparr>)),
                 db\<lparr>club_managers := pre @ app' # post\<rparr>)
          \<and> get_field app' ''status'' = JStr ''pending''
          \<and> get_field app' ''name'' = get_field (body req) ''name''
          \<and> get_field app' ''reason'' = to_bson (get_field (body req) ''reason'')
          \<and> get_field app' ''photoURL'' = to_bson (get_field (body req) ''photoURL'')
          \<and> get_field app' ''appliedAt'' = JDate (now e)
          \<and> get_field app' ''email'' = get_field app ''email''
          \<and> get_field app' ''_id'' = get_field app ''_id''
          \<and> (\<forall>k. k \<notin> set [''name'', ''reason'', ''photoURL'', ''status'', ''appliedAt'']
                 \<longrightarrow> get_field app' k = get_field app k)))
   \<and> (truthy (get_field (body req) ''name'') \<and> truthy (get_field (body req) ''email'')
      \<and> findOne [(''email'', get_field (body req) ''email'')] (club_managers db) = Some app
      \<and> get_field app ''status'' = JStr ''approved''
     \<longrightarrow> route_POST_club_managers e db req
          = (Some (send 409 (Message ''You are already an approved manager.'')), db))"
proof (intro conjI impI)
  let ?flt = "[(''email'', get_field (body req) ''email'')]"
  let ?sets = "[(''name'', get_field (body req) ''name''),
                (''reason'', get_field (body req) ''reason''),
                (''photoURL'', get_field (body req) ''photoURL''),
                (''status'', JStr ''pending''),
                (''appliedAt'', JDate (now e))]"
  assume H: "truthy (get_field (body req) ''name'') \<and> truthy (get_field (body req) ''email'')
      \<and> findOne ?flt (club_managers db) = Some app
      \<and> get_field app ''status'' = JStr ''rejected''"
  then have nm: "truthy (get_field (body req) ''name'')"
    and em: "truthy (get_field (body req) ''email'')"
    and fnd: "findOne ?flt (club_managers db) = Some app"
    and rej: "get_field app ''status'' = JStr ''rejected''"
    by simp_all
  let ?app' = "apply_set ?sets app"
  have st': "get_field ?app' ''status'' = JStr ''pending''"
    by (rule reapplication_fields)
  with rej have ch: "?app' \<noteq> app" by auto
  have upd: "updateOne ?flt ?sets (club_managers db)
      = Inr (\<lparr>matchedCount = 1, modifiedCount = 1, upsertedCount = 0\<rparr>,
             update_first (matches ?flt) (apply_set ?sets) (club_managers db))"
    using updateOne_match[OF fnd, of ?sets] ch by simp
  from find_split[OF fnd[unfolded findOne_def], of "apply_set ?sets"] obtain pre post where
    split: "club_managers db = pre @ app # post"
      "update_first (matches ?flt) (apply_set ?sets) (club_managers db) = pre @ ?app' # post"
    by blast
  have run: "route_POST_club_managers e db req
      = (Some (send 200 (MessageResult ''Re-application submitted successfully.''
           \<lparr>matchedCount = 1, modifiedCount = 1, upsertedCount = 0\<rparr>)),
         db\<lparr>club_managers := pre @ ?app' # post\<rparr>)"
    using nm em fnd rej upd split(2)
    by (simp add: route_POST_club_managers_def POST_club_managers_def Let_def)
  from nm have "to_bson (get_field (body req) ''name'') = get_field (body req) ''name''"
    by (auto simp: to_bson_def)
  then have name': "get_field ?app' ''name'' = get_field (body req) ''name''"
    by (simp add: reapplication_fields(1))
  have other: "\<forall>k. k \<notin> set [''name'', ''reason'', ''photoURL'', ''status'', ''appliedAt'']
                 \<longrightarrow> get_field ?app' k = get_field app k"
    by (intro allI impI reapplication_fields(6))
  then have em': "get_field ?app' ''email'' = get_field app ''email''"
    and id': "get_field ?app' ''_id'' = get_field app ''_id''"
    by simp_all
  have rs': "get_field ?app' ''reason'' = to_bson (get_field (body req) ''reason'')"
    by (rule reapplication_fields(2))
  have ph': "get_field ?app' ''photoURL'' = to_bson (get_field (body req) ''photoURL'')"
    by (rule reapplication_fields(3))
  have at': "get_field ?app' ''appliedAt'' = JDate (now e)"
    by (rule reapplication_fields(5))
  show "\<exists>pre post app'.
            club_managers db = pre @ app # post
          \<and> route_POST_club_managers e db req
              = (Some (send 200 (MessageResult ''Re-application submitted successfully.''
                   \<lparr>matchedCount = 1, modifiedCount = 1, upsertedCount = 0\<rparr>)),
                 db\<lparr>club_managers := pre @ app' # post\<rparr>)
          \<and> get_field app' ''status'' = JStr ''pending''
          \<and> get_field app' ''name'' = get_field (body req) ''name''
          \<and> get_field app' ''reason'' = to_bson (get_field (body req) ''reason'')
          \<and> get_field app' ''photoURL'' = to_bson (get_field (body req) ''photoURL'')
          \<and> get_field app' ''appliedAt'' = JDate (now e)
          \<and> get_field app' ''email'' = get_field app ''email''
          \<and> get_field app' ''_id'' = get_field app ''_id''
          \<and> (\<forall>k. k \<notin> set [''name'', ''reason'', ''photoURL'', ''status'', ''appliedAt'']
                 \<longrightarrow> get_field app' k = get_field app k)"
    by (intro exI[of _ pre] exI[of _ post] exI[of _ ?app'] conjI
          split(1) run st' name' rs' ph' at' em' id' other)
next
  assume "truthy (get_field (body req) ''name'') \<and> truthy (get_field (body req) ''email'')
      \<and> findOne [(''email'', get_field (body req) ''email'')] (club_managers db) = Some app
      \<and> get_field app ''status'' = JStr ''approved''"
  then show "route_POST_club_managers e db req
          = (Some (send 409 (Message ''You are already an approved manager.'')), db)"
    by (simp add: route_POST_club_managers_def POST_club_managers_def Let_def)
qed

theorem reapplication_after_rejection_witness:
  "findOne [(''email'', JStr ''bob@x.com'')] (club_managers db2)
     = Some [(''_id'', JOid app1), (''name'', JStr ''Bob''), (''email'', JStr ''bob@x.com''),
             (''reason'', JStr ''first try''), (''status'', JStr ''rejected''),
             (''appliedAt'', JDate 10)]
   \<and> fst (route_POST_club_managers env0 db2 (mk_request None [] []
          [(''name'', JStr ''Robert''), (''email'', JStr ''bob@x.com''),
           (''reason'', JStr ''second try'')]))
       = Some (send 200 (MessageResult ''Re-application submitted successfully.''
            \<lparr>matchedCount = 1, modifiedCount = 1, upsertedCount = 0\<rparr>))
   \<and> snd (route_POST_club_managers env0 db2 (mk_request None [] []
          [(''name'', JStr ''Robert''), (''email'', JStr ''bob@x.com''),
           (''reason'', JStr ''second try'')]))
       = db2\<lparr>club_managers :=
             [[(''_id'', JOid app1), (''name'', JStr ''Robert''), (''email'', JStr ''bob@x.com''),
               (''reason'', JStr ''second try''), (''status'', JStr ''pending''),
               (''appliedAt'', JDate 1000), (''photoURL'', JNull)],
              [(''_id'', JOid app2), (''name'', JStr ''Eve''), (''email'', JStr ''eve@x.com''),
               (''status'', JStr ''approved''), (''appliedAt'', JDate 20)]]\<rparr>
   \<and> findOne [(''email'', JStr ''eve@x.com'')] (club_managers db2)
     = Some [(''_id'', JOid app2), (''name'', JStr ''Eve''), (''email'', JStr ''eve@x.com''),
             (''status'', JStr ''approved''), (''appliedAt'', JDate 20)]
   \<and> route_POST_club_managers env0 db2 (mk_request None [] []
          [(''name'', JStr ''Eve''), (''email'', JStr ''eve@x.com'')])
       = (Some (send 409 (Message ''You are already an approved manager.'')), db2)"
proof -
  let ?bob = "mk_request None [] []
          [(''name'', JStr ''Robert''), (''email'', JStr ''bob@x.com''),
           (''reason'', JStr ''second try'')]"
  let ?eve = "mk_request None [] [] [(''name'', JStr ''Eve''), (''email'', JStr ''eve@x.com'')]"
  let ?bobapp = "[(''_id'', JOid app1), (''name'', JStr ''Bob''), (''email'', JStr ''bob@x.com''),
             (''reason'', JStr ''first try''), (''status'', JStr ''rejected''),
             (''appliedAt'', JDate 10)]"
  let ?eveapp = "[(''_id'', JOid app2), (''name'', JStr ''Eve''), (''email'', JStr ''eve@x.com''),
             (''status'', JStr ''approved''), (''appliedAt'', JDate 20)]"
  have bn: "truthy (get_field (body ?bob) ''name'')" by code_simp
  have be: "truthy (JStr ''bob@x.com'')" by simp
  have bmail: "get_field (body ?bob) ''email'' = JStr ''bob@x.com''" by code_simp
  have bf: "findOne [(''email'', JStr ''bob@x.com'')] (club_managers db2) = Some ?bobapp"
    by code_simp
  have bs: "get_field ?bobapp ''status'' = JStr ''rejected''" by code_simp
  have en: "truthy (get_field (body ?eve) ''name'')" by code_simp
  have ee: "truthy (JStr ''eve@x.com'')" by simp
  have email: "get_field (body ?eve) ''email'' = JStr ''eve@x.com''" by code_simp
  have ef: "findOne [(''email'', JStr ''eve@x.com'')] (club_managers db2) = Some ?eveapp"
    by code_simp
  have es: "get_field ?eveapp ''status'' = JStr ''approved''" by code_simp
  from reapplication_after_rejection [where req = ?bob and db = db2 and e = env0
      and app = ?bobapp, THEN conjunct1, THEN mp, unfolded bmail,
      OF conjI [OF bn conjI [OF be conjI [OF bf bs]]]]
  obtain pre post app' where run: "route_POST_club_managers env0 db2 ?bob
       = (Some (send 200 (MessageResult ''Re-application submitted successfully.''
            \<lparr>matchedCount = 1, modifiedCount = 1, upsertedCount = 0\<rparr>)),
          db2\<lparr>club_managers := pre @ app' # post\<rparr>)"
    by blast
  have w1: "fst (route_POST_club_managers env0 db2 ?bob)
       = Some (send 200 (MessageResult ''Re-application submitted successfully.''
            \<lparr>matchedCount = 1, modifiedCount = 1, upsertedCount = 0\<rparr>))"
    unfolding run fst_conv by (rule refl)
  have w2: "snd (route_POST_club_managers env0 db2 ?bob)
       = db2\<lparr>club_managers :=
             [[(''_id'', JOid app1), (''name'', JStr ''Robert''), (''email'', JStr ''bob@x.com''),
               (''reason'', JStr ''second try''), (''status'', JStr ''pending''),
               (''appliedAt'', JDate 1000), (''photoURL'', JNull)], ?eveapp]\<rparr>"
    by code_simp
  from reapplication_after_rejection [where req = ?eve and db = db2 and e = env0
      and app = ?eveapp, THEN conjunct2, THEN mp, unfolded email,
      OF conjI [OF en conjI [OF ee conjI [OF ef es]]]]
  have w3: "route_POST_club_managers env0 db2 ?eve
       = (Some (send 409 (Message ''You are already an approved manager.'')), db2)" .
  show ?thesis
    by (intro conjI bf w1 w2 ef w3)
qed

section \<open>Approval of manager applications\<close>

text \<open>
  Claim C1. The claim is that approving an application promotes the user whose email is
  the one stored in the application before the request, whatever email the body carries.
  The handler writes the whole body into the application first and reads the email back
  afterwards. Bob's application stores \<open>bob@x.com\<close>; the same approval sent with the body
  email \<open>bob@x.com\<close> promotes bob, and sent with the body email \<open>eve@x.com\<close> it promotes
  eve, leaves bob a member and rewrites the stored email.
\<close>

theorem approval_promotes_body_email:
  "findOne [(''_id'', JOid app1)] (club_managers db0)
     = Some [(''_id'', JOid app1), (''name'', JStr ''Bob''),
             (''email'', JStr ''bob@x.com''), (''status'', JStr ''pending'')]
   \<and> route_PATCH_club_managers_id env0 db0
        (mk_request (Some ''Bearer root-token'') app1 []
           [(''status'', JStr ''approved''), (''email'', JStr ''bob@x.com'')])
       = (Some (send 200
            (UpdateResult \<lparr>matchedCount = 1, modifiedCount = 1, upsertedCount = 0\<rparr>)),
          db0\<lparr>users :=
                [[(''email'', JStr ''alice@x.com''), (''role'', JStr ''member'')],
                 [(''email'', JStr ''bob@x.com''), (''role'', JStr ''club_manager'')],
                 [(''email'', JStr ''eve@x.com''), (''role'', JStr ''member'')],
                 [(''email'', JStr ''root@x.com''), (''role'', JStr ''super_admin'')]],
              club_managers :=
                [[(''_id'', JOid app1), (''name'', JStr ''Bob''),
                  (''email'', JStr ''bob@x.com''), (''status'', JStr ''approved'')]]\<rparr>)
   \<and> route_PATCH_club_managers_id env0 db0
        (mk_request (Some ''Bearer root-token'') app1 []
           [(''status'', JStr ''approved''), (''email'', JStr ''eve@x.com'')])
       = (Some (send 200
            (UpdateResult \<lparr>matchedCount = 1, modifiedCount = 1, upsertedCount = 0\<rparr>)),
          db0\<lparr>users :=
                [[(''email'', JStr ''alice@x.com''), (''role'', JStr ''member'')],
                 [(''email'', JStr ''bob@x.com''), (''role'', JStr ''member'')],
                 [(''email'', JStr ''eve@x.com''), (''role'', JStr ''club_manager'')],
                 [(''email'', JStr ''root@x.com''), (''role'', JStr ''super_admin'')]],
              club_managers :=
                [[(''_id'', JOid app1), (''name'', JStr ''Bob''),
                  (''email'', JStr ''eve@x.com''), (''status'', JStr ''approved'')]]\<rparr>)"
  by code_simp

text \<open>
  Claim C2. The claim is that approving or rejecting an application passes
  \<open>verifySuperAdmin\<close>, so that a principal who is not a super admin gets 403 and changes
  nothing. The route runs \<open>verifyFBToken\<close> only. Alice's stored role is \<open>member\<close>, and
  \<open>verifySuperAdmin\<close> answers her 403; her request to approve bob's application is
  answered 200, sets the application to approved and makes bob a club manager.
\<close>

theorem approval_without_super_admin:
  "findOne [(''email'', JStr ''alice@x.com'')] (users db0)
     = Some [(''email'', JStr ''alice@x.com''), (''role'', JStr ''member'')]
   \<and> verifyFBToken env0 db0
        (mk_request (Some ''Bearer alice-token'') app1 [] [(''status'', JStr ''approved'')])
       = Next ((mk_request (Some ''Bearer alice-token'') app1 [] [(''status'', JStr ''approved'')])
                \<lparr>user := Some [(''email'', JStr ''alice@x.com'')]\<rparr>)
   \<and> verifySuperAdmin env0 db0
        ((mk_request (Some ''Bearer alice-token'') app1 [] [(''status'', JStr ''approved'')])
           \<lparr>user := Some [(''email'', JStr ''alice@x.com'')]\<rparr>)
       = Respond (send 403 (Message ''forbidden access''))
   \<and> route_PATCH_club_managers_id env0 db0
        (mk_request (Some ''Bearer alice-token'') app1 [] [(''status'', JStr ''approved'')])
       = (Some (send 200
            (UpdateResult \<lparr>matchedCount = 1, modifiedCount = 1, upsertedCount = 0\<rparr>)),
          db0\<lparr>users :=
                [[(''email'', JStr ''alice@x.com''), (''role'', JStr ''member'')],
                 [(''email'', JStr ''bob@x.com''), (''role'', JStr ''club_manager'')],
                 [(''email'', JStr ''eve@x.com''), (''role'', JStr ''member'')],
                 [(''email'', JStr ''root@x.com''), (''role'', JStr ''super_admin'')]],
              club_managers :=
                [[(''_id'', JOid app1), (''name'', JStr ''Bob''),
                  (''email'', JStr ''bob@x.com''), (''status'', JStr ''approved'')]]\<rparr>)"
  by code_simp

section \<open>The club owner guard on malformed identifiers\<close>

text \<open>
  Claim C4. The claim is that \<open>verifyClubPermission\<close> answers a malformed club identifier
  with 400 before the lookup. The guard answers 400 only when the identifier is empty; the
  malformed identifier \<open>not-an-id\<close> makes \<^verbatim>\<open>new ObjectId\<close> throw inside the \<^verbatim>\<open>try\<close>, and the
  answer is 500. On well-formed identifiers the guard behaves as claimed: 404 for an unknown
  club, 403 for a club owned by somebody else, admission for the owner.
\<close>

theorem verifyClubPermission_malformed_id:
  "verifyClubPermission env0 db0
      ((mk_request (Some ''Bearer alice-token'') ''not-an-id'' [] [])
         \<lparr>user := Some [(''email'', JStr ''alice@x.com'')]\<rparr>)
     = Respond (send 500 (Message ''Internal Server Error during permission check.''))
   \<and> verifyClubPermission env0 db0
      ((mk_request (Some ''Bearer alice-token'') [] [] [])
         \<lparr>user := Some [(''email'', JStr ''alice@x.com'')]\<rparr>)
     = Respond (send 400 (Message ''Club ID is required.''))
   \<and> verifyClubPermission env0 db0
      ((mk_request (Some ''Bearer alice-token'') app1 [] [])
         \<lparr>user := Some [(''email'', JStr ''alice@x.com'')]\<rparr>)
     = Respond (send 404 (Message ''Club not found.''))
   \<and> verifyClubPermission env0 db0
      ((mk_request (Some ''Bearer root-token'') club1 [] [])
         \<lparr>user := Some [(''email'', JStr ''root@x.com'')]\<rparr>)
     = Respond (send 403 (Message ''Forbidden: You are not the manager of this club.''))
   \<and> verifyClubPermission env0 db0
      ((mk_request (Some ''Bearer alice-token'') club1 [] [])
         \<lparr>user := Some [(''email'', JStr ''alice@x.com'')]\<rparr>)
     = Next ((mk_request (Some ''Bearer alice-token'') club1 [] [])
         \<lparr>user := Some [(''email'', JStr ''alice@x.com'')]\<rparr>)"
  by code_simp

section \<open>Lifecycle writes\<close>


















end
